theory Spec2Isabelle
  imports Main
begin

section \<open>External collaborators\<close>

text \<open>
  The application talks to two remote services through client libraries: the persistence
  service (rows in tables, blobs in a bucket) and the generative gateway (a chat object).
  Neither is implemented in the repository, so the model takes the outcome of every remote
  call as an input and records every call that the code issues, with its arguments, in a
  trace. A function of the source that awaits remote calls therefore becomes a function
  from the outcomes to its own result and the list of calls it made, in the order it made
  them.

  The persistence client resolves every request to an object with an \<open>error\<close> field (and a
  \<open>data\<close> field for reads); the source destructures exactly these fields. A thrown
  JavaScript \<open>Error\<close> (a rejected promise) is the left injection of a sum.
  Output to the console is not part of the model.

  Strings are lists of 8-bit characters; the texts of the source are ASCII.
\<close>

datatype js_error = Error string

record api_error =
  message :: string

record 'a api_result =
  data :: "'a option"
  error :: "api_error option"

record blob =
  bytes :: "nat list"
  content_type :: string

record Content =
  role :: string
  parts :: "string list"

record Chat =
  model :: string
  systemInstruction :: "string option"
  history :: "Content list option"

datatype call =
    StorageUpload string string blob
  | StorageRemove string "string list"
  | StorageCreateSignedUrl string string nat
  | DbInsert string "(string \<times> string) list list"
  | DbSelect string string "(string \<times> string) list" string bool
  | DbDelete string "(string \<times> string) list"
  | Fetch string
  | ChatSendMessage Chat string
  | Alert string

text \<open>
  \<open>StorageUpload bucket path blob\<close>, \<open>StorageRemove bucket paths\<close> and
  \<open>StorageCreateSignedUrl bucket path ttl\<close> are the blob operations;
  \<open>DbInsert table rows\<close> (a row is a list of column/value pairs),
  \<open>DbSelect table columns filters order_column ascending\<close> and
  \<open>DbDelete table filters\<close> (a filter is an equality on a column) are the row operations.
\<close>

section \<open>Media service (services/supabaseService.ts)\<close>

subsection \<open>base64ToBlob\<close>

text \<open>
  \<open>atob\<close> is the platform's base64 decoder; it throws on malformed input and is taken as a
  parameter. The loop of the source copies the character code of every decoded character
  into the byte array.
\<close>

definition base64ToBlob :: "(string \<Rightarrow> js_error + string) \<Rightarrow> string \<Rightarrow> string \<Rightarrow> js_error + blob" where
  "base64ToBlob atob base64 contentType =
     (case atob base64 of
        Inl e \<Rightarrow> Inl e
      | Inr byteCharacters \<Rightarrow>
          Inr \<lparr>bytes = map of_char byteCharacters, content_type = contentType\<rparr>)"

subsection \<open>saveImage\<close>

record save_env =
  atob :: "string \<Rightarrow> js_error + string"
  now_iso :: string
  upload_error :: "api_error option"
  insert_error :: "api_error option"
  remove_error :: "api_error option"

text \<open>
  \<open>now_iso\<close> is the value of \<open>new Date().toISOString()\<close>; the three \<open>_error\<close> fields are
  the \<open>error\<close> fields of the results of the upload, the row insert and the compensating
  remove. The source awaits the remove and discards its result.
\<close>

definition saveImage :: "save_env \<Rightarrow> string \<Rightarrow> string \<Rightarrow> string \<Rightarrow> (js_error + unit) \<times> call list" where
  "saveImage env userId prompt imageBase64 =
     (case base64ToBlob (atob env) imageBase64 ''image/png'' of
        Inl e \<Rightarrow> (Inl e, [])
      | Inr imageBlob \<Rightarrow>
          (let filePath = userId @ ''/'' @ now_iso env @ ''.png'';
               upload_call = StorageUpload ''user_images'' filePath imageBlob
           in case upload_error env of
                Some uploadError \<Rightarrow>
                  (Inl (Error (''Failed to upload image to storage: '' @ message uploadError)),
                   [upload_call])
              | None \<Rightarrow>
                  (let insert_call = DbInsert ''user_images''
                         [[(''user_id'', userId), (''prompt'', prompt), (''storage_path'', filePath)]]
                   in case insert_error env of
                        Some insertError \<Rightarrow>
                          (Inl (Error (''Failed to save image metadata: '' @ message insertError)),
                           [upload_call, insert_call, StorageRemove ''user_images'' [filePath]])
                      | None \<Rightarrow> (Inr (), [upload_call, insert_call]))))"

subsection \<open>getUserImages\<close>

record image_row =
  image_id :: string
  prompt :: string
  storage_path :: string
  created_at :: string

record user_image = image_row +
  url :: string

record signed_url =
  signedUrl :: string

record list_env =
  select_result :: "image_row list api_result"
  createSignedUrl :: "nat \<Rightarrow> string \<Rightarrow> signed_url api_result"

text \<open>
  \<open>select_result\<close> is the result of the row query; \<open>createSignedUrl env index path\<close> is the
  result of the signed-URL request that the source issues for the row at \<open>index\<close>.
  \<open>with_url img u\<close> is the object \<open>{ ...image, url: u }\<close>; the column \<open>id\<close> is the field
  \<open>image_id\<close>.
\<close>

definition with_url :: "image_row \<Rightarrow> string \<Rightarrow> user_image" where
  "with_url img u =
     \<lparr>image_id = image_id img, prompt = prompt img, storage_path = storage_path img,
      created_at = created_at img, url = u\<rparr>"

definition getUserImages :: "list_env \<Rightarrow> string \<Rightarrow> (js_error + user_image list) \<times> call list" where
  "getUserImages env userId =
     (let select_call = DbSelect ''user_images'' ''id, prompt, storage_path, created_at''
                     [(''user_id'', userId)] ''created_at'' False
      in case error (select_result env) of
           Some dbError \<Rightarrow>
             (Inl (Error (''Failed to fetch image records: '' @ message dbError)), [select_call])
         | None \<Rightarrow>
             (case data (select_result env) of
                None \<Rightarrow> (Inr [], [select_call])
              | Some imagesData \<Rightarrow>
                  if length imagesData = 0 then (Inr [], [select_call])
                  else
                    (let signedUrlResults =
                           map (\<lambda>(index, img). createSignedUrl env index (storage_path img))
                             (enumerate 0 imagesData)
                     in (Inr (map (\<lambda>(index, img).
                                 (let r = signedUrlResults ! index
                                  in case error r of
                                       Some e \<Rightarrow> with_url img ''''
                                     | None \<Rightarrow>
                                         (case data r of
                                            None \<Rightarrow> with_url img ''''
                                          | Some d \<Rightarrow> with_url img (signedUrl d))))
                               (enumerate 0 imagesData)),
                         select_call # map (\<lambda>img. StorageCreateSignedUrl ''user_images''
                                                  (storage_path img) 3600) imagesData))))"

subsection \<open>deleteImage\<close>

record delete_env =
  storage_error :: "api_error option"
  db_error :: "api_error option"

definition deleteImage :: "delete_env \<Rightarrow> string \<Rightarrow> string \<Rightarrow> (js_error + unit) \<times> call list" where
  "deleteImage env userId storagePath =
     (let remove_call = StorageRemove ''user_images'' [storagePath]
      in case storage_error env of
           Some storageError \<Rightarrow>
             (Inl (Error (''Failed to delete image from storage: '' @ message storageError)),
              [remove_call])
         | None \<Rightarrow>
             (let delete_call = DbDelete ''user_images''
                    [(''user_id'', userId), (''storage_path'', storagePath)]
              in case db_error env of
                   Some dbError \<Rightarrow>
                     (Inl (Error (''Failed to delete image record: '' @ message dbError)),
                      [remove_call, delete_call])
                 | None \<Rightarrow> (Inr (), [remove_call, delete_call])))"

section \<open>Gateway service (services/geminiService.ts)\<close>

text \<open>
  \<open>createChat\<close> opens a conversation context. Its two parameters are optional; an absent
  argument is \<open>None\<close>. The configuration carries the system instruction only when the
  argument is truthy, that is, present and not the empty string.
\<close>

definition createChat :: "string option \<Rightarrow> Content list option \<Rightarrow> Chat" where
  "createChat instruction seed =
     \<lparr>model = ''gemini-2.5-flash'',
      systemInstruction =
        (case instruction of
           None \<Rightarrow> None
         | Some t \<Rightarrow> if t = [] then None else Some t),
      history = seed\<rparr>"

text \<open>
  The remote call \<open>chat.sendMessage\<close> either rejects or resolves to a response whose text
  is read; its outcome is the argument. \<open>sendMessageToChat\<close> wraps the call in
  \<open>try\<close>/\<open>catch\<close>.
\<close>

definition sendMessageToChat :: "js_error + string \<Rightarrow> js_error + string" where
  "sendMessageToChat sendMessage_outcome =
     (case sendMessage_outcome of
        Inr response_text \<Rightarrow> Inr response_text
      | Inl e \<Rightarrow> Inr ''Sorry, I encountered an error. Please try again.'')"

section \<open>Chat session (components/Chatbot.tsx)\<close>

record Message =
  sender :: string
  "text" :: string

record session =
  chat :: "Chat option"
  messages :: "Message list"
  input :: string
  isLoading :: bool
  user :: "string option"

text \<open>
  The component state: the four \<open>useState\<close> cells and the authenticated user's id
  (\<open>None\<close> when there is no user).
\<close>

subsection \<open>String helpers of the platform\<close>

text \<open>
  \<open>String.prototype.trim\<close> strips white space and line terminators from both ends. Of the
  characters it strips, those below 256 are the code points 9 to 13, 32 and 160; the
  others (U+FEFF and the Unicode space separators) are outside the model's character type.
  \<open>String.prototype.includes\<close> (here \<open>str_includes\<close>) is the case-sensitive substring test.
\<close>

definition is_white_space :: "char \<Rightarrow> bool" where
  "is_white_space c = (of_char c \<in> {9, 10, 11, 12, 13, 32, 160 :: nat})"

definition trim :: "string \<Rightarrow> string" where
  "trim s = rev (dropWhile is_white_space (rev (dropWhile is_white_space s)))"

fun str_includes :: "string \<Rightarrow> string \<Rightarrow> bool" where
  "str_includes [] sub = (sub = [])"
| "str_includes (c # cs) sub = (take (length sub) (c # cs) = sub \<or> str_includes cs sub)"

subsection \<open>Loading the knowledge base\<close>

record fetch_response =
  ok :: bool
  body :: "js_error + string"

text \<open>
  The same \<open>try\<close> block occurs in \<open>initChat\<close> and in \<open>handleClearHistory\<close>: the knowledge
  text starts empty and is replaced by the body of the response when the fetch resolves
  with \<open>ok\<close>; a rejection of the fetch or of the body read is caught.
\<close>

definition load_knowledge :: "js_error + fetch_response \<Rightarrow> string" where
  "load_knowledge fetch_outcome =
     (case fetch_outcome of
        Inl e \<Rightarrow> ''''
      | Inr response \<Rightarrow>
          if ok response
          then (case body response of Inl e \<Rightarrow> '''' | Inr t \<Rightarrow> t)
          else '''')"

subsection \<open>initChat\<close>

definition setup_incomplete_notice :: string where
  "setup_incomplete_notice =
     ''DATABASE SETUP INCOMPLETE:'' @ [CHR 0x0A, CHR 0x0A] @
     ''The 'chat_history' table is missing from your Supabase database. Please execute the required SQL script provided in the documentation in your Supabase project's SQL Editor to create the necessary tables.''"

definition generic_error_notice :: "string \<Rightarrow> string" where
  "generic_error_notice m = ''Hello! I couldn't load previous messages due to an error: '' @ m"

definition greeting :: string where
  "greeting = ''Hello! This is EBURON. How can I help you today?''"

definition initChat ::
  "session \<Rightarrow> string \<Rightarrow> js_error + fetch_response \<Rightarrow> Message list api_result \<Rightarrow> session \<times> call list" where
  "initChat s currentUserId fetch_outcome res =
     (let knowledge = load_knowledge fetch_outcome;
          formattedHistory =
            (case data res of
               Some d \<Rightarrow>
                 map (\<lambda>msg. \<lparr>role = (if sender msg = ''user'' then ''user'' else ''model''),
                              parts = [text msg]\<rparr>) d
             | None \<Rightarrow> []);
          s1 = s\<lparr>chat := Some (createChat (Some knowledge) (Some formattedHistory))\<rparr>;
          s2 =
            (case error res of
               Some err \<Rightarrow>
                 if str_includes (message err) ''does not exist'' \<or>
                    str_includes (message err) ''Could not find the table''
                 then s1\<lparr>messages := [\<lparr>sender = ''bot'', text = setup_incomplete_notice\<rparr>]\<rparr>
                 else s1\<lparr>messages :=
                          [\<lparr>sender = ''bot'', text = generic_error_notice (message err)\<rparr>]\<rparr>
             | None \<Rightarrow>
                 (case data res of
                    Some d \<Rightarrow>
                      if length d > 0 then s1\<lparr>messages := d\<rparr>
                      else s1\<lparr>messages := [\<lparr>sender = ''bot'', text = greeting\<rparr>]\<rparr>
                  | None \<Rightarrow> s1\<lparr>messages := [\<lparr>sender = ''bot'', text = greeting\<rparr>]\<rparr>))
      in (s2\<lparr>isLoading := False\<rparr>,
          [Fetch ''/knowledge_base.txt'',
           DbSelect ''chat_history'' ''sender, text'' [(''user_id'', currentUserId)]
             ''created_at'' True]))"

text \<open>
  \<open>initChat\<close> sets \<open>isLoading\<close> when it starts and clears it when it ends; the function
  above is one whole run with nothing else in between, so only the final value shows. The
  run is split at its start where a session is followed over time, further down.
\<close>

subsection \<open>handleSend\<close>

text \<open>
  \<open>handleSend\<close> runs in two parts, separated by the \<open>await\<close> of the gateway call. The first
  part is the guard and the optimistic update; it returns \<open>None\<close> when the guard returns
  early. The second part runs when the gateway call settles; it works on the state of
  that moment (the updates are functional, \<open>prev => [...prev, m]\<close>) and on the values that
  the first part captured: the chat, the input and the user id.
\<close>

record pending =
  pending_chat :: Chat
  currentInput :: string
  pending_user :: string

definition handleSend_start :: "session \<Rightarrow> (session \<times> pending) option" where
  "handleSend_start s =
     (if trim (input s) = [] \<or> chat s = None \<or> isLoading s \<or> user s = None then None
      else Some (s\<lparr>messages := messages s @ [\<lparr>sender = ''user'', text = input s\<rparr>],
                   input := '''',
                   isLoading := True\<rparr>,
                 \<lparr>pending_chat = the (chat s), currentInput = input s,
                  pending_user = the (user s)\<rparr>))"

definition handleSend_settle ::
  "session \<Rightarrow> pending \<Rightarrow> js_error + string \<Rightarrow> api_error option \<Rightarrow> session \<times> call list" where
  "handleSend_settle s p sendMessage_outcome insert_err =
     (case sendMessageToChat sendMessage_outcome of
        Inr botResponseText \<Rightarrow>
          (s\<lparr>messages := messages s @ [\<lparr>sender = ''bot'', text = botResponseText\<rparr>],
             isLoading := False\<rparr>,
           [DbInsert ''chat_history''
              [[(''user_id'', pending_user p), (''sender'', ''user''), (''text'', currentInput p)],
               [(''user_id'', pending_user p), (''sender'', ''bot''), (''text'', botResponseText)]]])
      | Inl e \<Rightarrow>
          (s\<lparr>messages := messages s @
                [\<lparr>sender = ''bot'', text = ''Sorry, I couldn't get a response. Please try again.''\<rparr>],
             isLoading := False\<rparr>,
           []))"

text \<open>
  The result of the insert (\<open>insert_err\<close>) is only logged. A whole call with nothing else
  running in between is the first part followed by the second.
\<close>

definition handleSend ::
  "session \<Rightarrow> js_error + string \<Rightarrow> api_error option \<Rightarrow> session \<times> call list" where
  "handleSend s sendMessage_outcome insert_err =
     (case handleSend_start s of
        None \<Rightarrow> (s, [])
      | Some (s', p) \<Rightarrow>
          (let (s'', calls) = handleSend_settle s' p sendMessage_outcome insert_err
           in (s'', ChatSendMessage (pending_chat p) (currentInput p) # calls)))"

subsection \<open>handleClearHistory\<close>

definition handleClearHistory ::
  "session \<Rightarrow> api_error option \<Rightarrow> js_error + fetch_response \<Rightarrow> session \<times> call list" where
  "handleClearHistory s delete_err fetch_outcome =
     (case user s of
        None \<Rightarrow> (s, [])
      | Some uid \<Rightarrow>
          (let delete_call = DbDelete ''chat_history'' [(''user_id'', uid)]
           in case delete_err of
                Some err \<Rightarrow>
                  (s, [delete_call, Alert ''Could not clear history. Please try again.''])
              | None \<Rightarrow>
                  (s\<lparr>messages := [\<lparr>sender = ''bot'', text = ''History cleared. How can I help you?''\<rparr>],
                     chat := Some (createChat (Some (load_knowledge fetch_outcome)) None)\<rparr>,
                   [delete_call, Fetch ''/knowledge_base.txt''])))"

subsection \<open>A session over time\<close>

text \<open>
  A mounted component: the state of the component, the gateway exchanges that have been
  started and have not settled yet, and the runs of \<open>initChat\<close> that have been started and
  have not finished yet (each with the user id it was started for).

  The effect that runs \<open>initChat\<close> depends on the user object. It runs when the component
  is mounted with a user, and it runs again whenever the user object changes; it has no
  cleanup, so a run that was started always finishes and writes its result. A run begins
  with \<open>initChat_begin\<close> and, after its two awaits, ends by writing the chat, the
  transcript and \<open>isLoading = false\<close> into the state of that moment; since these writes do
  not read the state, \<open>initChat\<close> applied to the state of that moment gives the result.

  In between, the user types, sends and clears the history in any order, and an
  outstanding exchange settles at any time with any outcome. A send that the guard
  refuses changes nothing and so needs no rule.
\<close>

record system =
  ui :: session
  outstanding :: "pending list"
  initializing :: "string list"

definition mounted :: "string \<Rightarrow> session" where
  "mounted uid = \<lparr>chat = None, messages = [], input = '''', isLoading = False, user = Some uid\<rparr>"

definition initChat_begin :: "session \<Rightarrow> session" where
  "initChat_begin s = s\<lparr>isLoading := True\<rparr>"

inductive reachable :: "system \<Rightarrow> bool" where
  mounted_with_user:
    "reachable \<lparr>ui = initChat_begin (mounted uid), outstanding = [], initializing = [uid]\<rparr>"
| user_changed:
    "reachable sys \<Longrightarrow>
     reachable \<lparr>ui = initChat_begin ((ui sys)\<lparr>user := Some uid\<rparr>),
                outstanding = outstanding sys,
                initializing = initializing sys @ [uid]\<rparr>"
| initialized:
    "reachable sys \<Longrightarrow> uid \<in> set (initializing sys) \<Longrightarrow>
     reachable \<lparr>ui = fst (initChat (ui sys) uid fetch_outcome res),
                outstanding = outstanding sys,
                initializing = remove1 uid (initializing sys)\<rparr>"
| typed:
    "reachable sys \<Longrightarrow> reachable (sys\<lparr>ui := (ui sys)\<lparr>input := v\<rparr>\<rparr>)"
| sent:
    "reachable sys \<Longrightarrow> handleSend_start (ui sys) = Some (s', p) \<Longrightarrow>
     reachable \<lparr>ui = s', outstanding = outstanding sys @ [p],
                initializing = initializing sys\<rparr>"
| settled:
    "reachable sys \<Longrightarrow> p \<in> set (outstanding sys) \<Longrightarrow>
     reachable \<lparr>ui = fst (handleSend_settle (ui sys) p sendMessage_outcome insert_err),
                outstanding = remove1 p (outstanding sys),
                initializing = initializing sys\<rparr>"
| cleared:
    "reachable sys \<Longrightarrow>
     reachable (sys\<lparr>ui := fst (handleClearHistory (ui sys) delete_err fetch_outcome)\<rparr>)"

subsection \<open>Sends issued one after the other\<close>

text \<open>
  Each exchange is the text typed into the input, the outcome of the gateway call and the
  outcome of the insert; the next one starts when the previous one has settled.
\<close>

fun run_sends :: "session \<Rightarrow> (string \<times> (js_error + string) \<times> api_error option) list \<Rightarrow> session" where
  "run_sends s [] = s"
| "run_sends s ((typed_text, sendMessage_outcome, insert_err) # rest) =
     run_sends (fst (handleSend (s\<lparr>input := typed_text\<rparr>) sendMessage_outcome insert_err)) rest"

section \<open>Reading traces and transcripts\<close>

fun is_storage_remove :: "call \<Rightarrow> bool" where
  "is_storage_remove (StorageRemove bucket paths) = True"
| "is_storage_remove c = False"

fun is_row_call :: "call \<Rightarrow> bool" where
  "is_row_call (DbInsert t rows) = True"
| "is_row_call (DbSelect t cols fs oc asc) = True"
| "is_row_call (DbDelete t fs) = True"
| "is_row_call c = False"

text \<open>The \<open>url\<close> that \<open>getUserImages\<close> gives a row, read off the result of its request.\<close>

definition url_of_result :: "signed_url api_result \<Rightarrow> string" where
  "url_of_result r =
     (case error r of
        Some e \<Rightarrow> ''''
      | None \<Rightarrow> (case data r of None \<Rightarrow> '''' | Some d \<Rightarrow> signedUrl d))"

text \<open>
  An exchange that the gateway answers is the typed text, the reply and the outcome of the
  insert. \<open>answered\<close> turns it into an input of \<open>run_sends\<close>; \<open>exchange_turns\<close> is the pair of
  turns expected in the transcript.
\<close>

definition answered ::
  "string \<times> string \<times> api_error option \<Rightarrow> string \<times> (js_error + string) \<times> api_error option" where
  "answered x = (case x of (typed_text, reply, insert_err) \<Rightarrow> (typed_text, Inr reply, insert_err))"

definition exchange_turns :: "string \<times> string \<times> api_error option \<Rightarrow> Message list" where
  "exchange_turns x =
     (case x of (typed_text, reply, insert_err) \<Rightarrow>
        [\<lparr>sender = ''user'', text = typed_text\<rparr>, \<lparr>sender = ''bot'', text = reply\<rparr>])"

subsection \<open>Concrete inputs\<close>

definition save_env_example :: save_env where
  "save_env_example =
     \<lparr>atob = (\<lambda>b. Inr ''x''), now_iso = ''2024-01-01T00:00:00.000Z'',
      upload_error = None, insert_error = Some \<lparr>message = ''denied''\<rparr>,
      remove_error = Some \<lparr>message = ''gone''\<rparr>\<rparr>"

definition list_env_example :: list_env where
  "list_env_example =
     \<lparr>select_result =
        \<lparr>data = Some [\<lparr>image_id = ''7'', prompt = ''cat'', storage_path = ''p1'',
                        created_at = ''2024-01-01''\<rparr>],
         error = None\<rparr>,
      createSignedUrl = (\<lambda>index path. \<lparr>data = None, error = Some \<lparr>message = ''denied''\<rparr>\<rparr>)\<rparr>"

definition ready_example :: session where
  "ready_example =
     \<lparr>chat = Some (createChat (Some '''') (Some [])),
      messages = [\<lparr>sender = ''bot'', text = greeting\<rparr>],
      input = ''hi'', isLoading = False, user = Some ''u1''\<rparr>"

text \<open>
  A run of one session: the component is mounted for user \<open>u1\<close> and initialised (no
  knowledge text, no rows); the user sends \<open>hi\<close>; the user object changes (same id) and
  \<open>initChat\<close> runs again, this time with the knowledge text \<open>kb\<close>, and finishes while the
  first exchange is outstanding (\<open>reloaded_example\<close>); the user sends \<open>again\<close>; the first
  exchange settles with the reply \<open>hello\<close>; the user sends \<open>third\<close> (\<open>racing_example\<close>).
\<close>

definition first_chat :: Chat where
  "first_chat = \<lparr>model = ''gemini-2.5-flash'', systemInstruction = None, history = Some []\<rparr>"

definition second_chat :: Chat where
  "second_chat =
     \<lparr>model = ''gemini-2.5-flash'', systemInstruction = Some ''kb'', history = Some []\<rparr>"

definition reloaded_example :: system where
  "reloaded_example =
     \<lparr>ui = \<lparr>chat = Some second_chat,
             messages = [\<lparr>sender = ''bot'', text = greeting\<rparr>],
             input = '''', isLoading = False, user = Some ''u1''\<rparr>,
      outstanding = [\<lparr>pending_chat = first_chat, currentInput = ''hi'', pending_user = ''u1''\<rparr>],
      initializing = []\<rparr>"

definition racing_example :: system where
  "racing_example =
     \<lparr>ui = \<lparr>chat = Some second_chat,
             messages = [\<lparr>sender = ''bot'', text = greeting\<rparr>,
                         \<lparr>sender = ''user'', text = ''again''\<rparr>,
                         \<lparr>sender = ''bot'', text = ''hello''\<rparr>,
                         \<lparr>sender = ''user'', text = ''third''\<rparr>],
             input = '''', isLoading = True, user = Some ''u1''\<rparr>,
      outstanding =
        [\<lparr>pending_chat = second_chat, currentInput = ''again'', pending_user = ''u1''\<rparr>,
         \<lparr>pending_chat = second_chat, currentInput = ''third'', pending_user = ''u1''\<rparr>],
      initializing = []\<rparr>"

section \<open>Media service: save and delete under partial failure\<close>

text \<open>
  C2. When the input decodes, the upload succeeds and the row insert fails, \<open>saveImage\<close>
  rejects with the metadata error that carries the message of the insert error. The calls
  it has issued are the upload, the insert and one remove of the path just uploaded, in
  this order, so the trace holds exactly one blob delete. The outcome of that remove has
  no influence on the result: whatever \<open>remove_error\<close> is, the call behaves the same.
\<close>

theorem saveImage_insert_failure:
  assumes "atob env imageBase64 = Inr decoded"
    and "upload_error env = None"
    and "insert_error env = Some insertError"
  shows "fst (saveImage env userId promptText imageBase64) =
           Inl (Error (''Failed to save image metadata: '' @ message insertError)) \<and>
         snd (saveImage env userId promptText imageBase64) =
           [StorageUpload ''user_images'' (userId @ ''/'' @ now_iso env @ ''.png'')
              \<lparr>bytes = map of_char decoded, content_type = ''image/png''\<rparr>,
            DbInsert ''user_images''
              [[(''user_id'', userId), (''prompt'', promptText),
                (''storage_path'', userId @ ''/'' @ now_iso env @ ''.png'')]],
            StorageRemove ''user_images'' [userId @ ''/'' @ now_iso env @ ''.png'']] \<and>
         filter is_storage_remove (snd (saveImage env userId promptText imageBase64)) =
           [StorageRemove ''user_images'' [userId @ ''/'' @ now_iso env @ ''.png'']] \<and>
         saveImage (env\<lparr>remove_error := r\<rparr>) userId promptText imageBase64 =
           saveImage env userId promptText imageBase64"
  using assms by (simp add: saveImage_def base64ToBlob_def Let_def)

theorem saveImage_insert_failure_witness:
  "fst (saveImage save_env_example ''u1'' ''cat'' ''eA=='') =
     Inl (Error ''Failed to save image metadata: denied'') \<and>
   filter is_storage_remove (snd (saveImage save_env_example ''u1'' ''cat'' ''eA=='')) =
     [StorageRemove ''user_images'' [''u1/2024-01-01T00:00:00.000Z.png'']] \<and>
   saveImage (save_env_example\<lparr>remove_error := None\<rparr>) ''u1'' ''cat'' ''eA=='' =
     saveImage save_env_example ''u1'' ''cat'' ''eA==''"
  using saveImage_insert_failure
    [of save_env_example "''eA==''" "''x''" "\<lparr>message = ''denied''\<rparr>" "''u1''" "''cat''" None]
  by (simp add: save_env_example_def)

text \<open>
  C4. \<open>deleteImage\<close> always starts with the remove of the blob, and no second remove
  follows it. When the remove succeeds, the next and last call is the delete of the rows
  whose \<open>user_id\<close> and \<open>storage_path\<close> equal the two arguments. When that delete fails, the
  call rejects with the error that carries the message of the row-delete error.
\<close>

theorem deleteImage_blob_then_row:
  "(\<exists>rest. snd (deleteImage env userId storagePath) =
            StorageRemove ''user_images'' [storagePath] # rest \<and>
          filter is_storage_remove rest = []) \<and>
   (storage_error env = None \<longrightarrow>
      snd (deleteImage env userId storagePath) =
        [StorageRemove ''user_images'' [storagePath],
         DbDelete ''user_images'' [(''user_id'', userId), (''storage_path'', storagePath)]]) \<and>
   (storage_error env = None \<and> db_error env = Some dbError \<longrightarrow>
      fst (deleteImage env userId storagePath) =
        Inl (Error (''Failed to delete image record: '' @ message dbError)))"
  by (simp add: deleteImage_def Let_def split: option.splits)

theorem deleteImage_blob_then_row_witness:
  "snd (deleteImage \<lparr>storage_error = None, db_error = Some \<lparr>message = ''timeout''\<rparr>\<rparr>
          ''u1'' ''u1/a.png'') =
     [StorageRemove ''user_images'' [''u1/a.png''],
      DbDelete ''user_images'' [(''user_id'', ''u1''), (''storage_path'', ''u1/a.png'')]] \<and>
   fst (deleteImage \<lparr>storage_error = None, db_error = Some \<lparr>message = ''timeout''\<rparr>\<rparr>
          ''u1'' ''u1/a.png'') =
     Inl (Error ''Failed to delete image record: timeout'')"
  using deleteImage_blob_then_row
    [of "\<lparr>storage_error = None, db_error = Some \<lparr>message = ''timeout''\<rparr>\<rparr>"
        "''u1''" "''u1/a.png''" "\<lparr>message = ''timeout''\<rparr>"]
  by simp

text \<open>
  C10. When the remove of the blob fails, \<open>deleteImage\<close> rejects with the error that
  carries the message of the storage error, and the remove is the only call it has issued:
  no row operation is in the trace, so nothing is asked of the metadata table.
\<close>

theorem deleteImage_storage_failure:
  assumes "storage_error env = Some storageError"
  shows "fst (deleteImage env userId storagePath) =
           Inl (Error (''Failed to delete image from storage: '' @ message storageError)) \<and>
         snd (deleteImage env userId storagePath) =
           [StorageRemove ''user_images'' [storagePath]] \<and>
         filter is_row_call (snd (deleteImage env userId storagePath)) = []"
  using assms by (simp add: deleteImage_def Let_def)

theorem deleteImage_storage_failure_witness:
  "fst (deleteImage \<lparr>storage_error = Some \<lparr>message = ''not found''\<rparr>, db_error = None\<rparr>
          ''u1'' ''u1/a.png'') =
     Inl (Error ''Failed to delete image from storage: not found'') \<and>
   snd (deleteImage \<lparr>storage_error = Some \<lparr>message = ''not found''\<rparr>, db_error = None\<rparr>
          ''u1'' ''u1/a.png'') =
     [StorageRemove ''user_images'' [''u1/a.png'']]"
  using deleteImage_storage_failure
    [of "\<lparr>storage_error = Some \<lparr>message = ''not found''\<rparr>, db_error = None\<rparr>"
        "\<lparr>message = ''not found''\<rparr>" "''u1''" "''u1/a.png''"]
  by simp

section \<open>Media service: listing\<close>

lemma getUserImages_rows:
  assumes "error (select_result env) = None"
    and "rows = (case data (select_result env) of None \<Rightarrow> [] | Some d \<Rightarrow> d)"
  shows "fst (getUserImages env userId) =
           Inr (map (\<lambda>(index, img). with_url img
                       (url_of_result (createSignedUrl env index (storage_path img))))
                  (enumerate 0 rows))"
proof (cases "data (select_result env)")
  case None
  with assms show ?thesis by (simp add: getUserImages_def)
next
  case (Some imagesData)
  have nth: "map (\<lambda>(index, img). createSignedUrl env index (storage_path img))
               (enumerate 0 imagesData) ! i = createSignedUrl env i (storage_path img)"
    if "(i, img) \<in> set (enumerate 0 imagesData)" for i img
    using that by (auto simp: in_set_enumerate_eq nth_enumerate_eq)
  show ?thesis
    using assms Some
    by (auto simp: getUserImages_def Let_def url_of_result_def nth
             intro!: map_cong split: option.splits)
qed

lemma getUserImages_select_first:
  "\<exists>rest. snd (getUserImages env userId) =
     DbSelect ''user_images'' ''id, prompt, storage_path, created_at''
       [(''user_id'', userId)] ''created_at'' False # rest"
  by (simp add: getUserImages_def Let_def split: option.splits)

text \<open>
  C6. When the row query succeeds, \<open>getUserImages\<close> resolves to a list with one entry per
  row that the query returned (no rows, or no data at all, give the empty list). The
  query asks for the user's rows by \<open>created_at\<close>, descending, and the entry at each index
  carries the fields of the row at that index, so the order of the rows is kept: whatever
  relation orders the \<open>created_at\<close> values of the rows orders those of the result. The
  \<open>url\<close> of an entry is the signed URL of its request when the request has no error and
  has data, and the empty string when the request fails; the entry stays in the list.
\<close>

theorem getUserImages_one_per_row:
  assumes "error (select_result env) = None"
    and "rows = (case data (select_result env) of None \<Rightarrow> [] | Some d \<Rightarrow> d)"
  shows "\<exists>res rest.
           fst (getUserImages env userId) = Inr res \<and>
           snd (getUserImages env userId) =
             DbSelect ''user_images'' ''id, prompt, storage_path, created_at''
               [(''user_id'', userId)] ''created_at'' False # rest \<and>
           length res = length rows \<and>
           (rows = [] \<longrightarrow> res = []) \<and>
           (\<forall>i < length rows.
              image_id (res ! i) = image_id (rows ! i) \<and>
              prompt (res ! i) = prompt (rows ! i) \<and>
              storage_path (res ! i) = storage_path (rows ! i) \<and>
              created_at (res ! i) = created_at (rows ! i) \<and>
              (error (createSignedUrl env i (storage_path (rows ! i))) = None \<longrightarrow>
                 (\<forall>d. data (createSignedUrl env i (storage_path (rows ! i))) = Some d \<longrightarrow>
                      url (res ! i) = signedUrl d)) \<and>
              ((\<exists>e. error (createSignedUrl env i (storage_path (rows ! i))) = Some e) \<or>
               data (createSignedUrl env i (storage_path (rows ! i))) = None \<longrightarrow>
                 url (res ! i) = '''')) \<and>
           (\<forall>later. sorted_wrt (\<lambda>a b. later (created_at a) (created_at b)) rows \<longrightarrow>
                    sorted_wrt (\<lambda>a b. later (created_at a) (created_at b)) res)"
proof -
  define res where
    "res = map (\<lambda>(index, img). with_url img
                  (url_of_result (createSignedUrl env index (storage_path img))))
             (enumerate 0 rows)"
  have r: "fst (getUserImages env userId) = Inr res"
    unfolding res_def using assms by (rule getUserImages_rows)
  obtain rest where t: "snd (getUserImages env userId) =
     DbSelect ''user_images'' ''id, prompt, storage_path, created_at''
       [(''user_id'', userId)] ''created_at'' False # rest"
    using getUserImages_select_first by blast
  have len: "length res = length rows" by (simp add: res_def)
  have nth: "res ! i = with_url (rows ! i)
               (url_of_result (createSignedUrl env i (storage_path (rows ! i))))"
    if "i < length rows" for i
    using that by (simp add: res_def nth_enumerate_eq)
  have fields: "image_id (res ! i) = image_id (rows ! i) \<and>
              prompt (res ! i) = prompt (rows ! i) \<and>
              storage_path (res ! i) = storage_path (rows ! i) \<and>
              created_at (res ! i) = created_at (rows ! i) \<and>
              (error (createSignedUrl env i (storage_path (rows ! i))) = None \<longrightarrow>
                 (\<forall>d. data (createSignedUrl env i (storage_path (rows ! i))) = Some d \<longrightarrow>
                      url (res ! i) = signedUrl d)) \<and>
              ((\<exists>e. error (createSignedUrl env i (storage_path (rows ! i))) = Some e) \<or>
               data (createSignedUrl env i (storage_path (rows ! i))) = None \<longrightarrow>
                 url (res ! i) = '''')"
    if "i < length rows" for i
    using nth [OF that] by (auto simp: with_url_def url_of_result_def split: option.splits)
  have srt: "sorted_wrt (\<lambda>a b. later (created_at a) (created_at b)) res"
    if "sorted_wrt (\<lambda>a b. later (created_at a) (created_at b)) rows" for later
    using that fields len by (simp add: sorted_wrt_iff_nth_less)
  have emp: "rows = [] \<longrightarrow> res = []" by (simp add: res_def)
  show ?thesis using r t len emp fields srt by blast
qed

theorem getUserImages_one_per_row_witness:
  "fst (getUserImages list_env_example ''u1'') =
     Inr [\<lparr>image_id = ''7'', prompt = ''cat'', storage_path = ''p1'',
           created_at = ''2024-01-01'', url = ''''\<rparr>]"
proof -
  let ?rows = "[\<lparr>image_id = ''7'', prompt = ''cat'', storage_path = ''p1'',
                 created_at = ''2024-01-01''\<rparr>]"
  have e: "error (select_result list_env_example) = None"
    by (simp add: list_env_example_def)
  have d: "?rows = (case data (select_result list_env_example) of None \<Rightarrow> [] | Some d \<Rightarrow> d)"
    by (simp add: list_env_example_def)
  from getUserImages_one_per_row [OF e d, of "''u1''"]
  obtain res where r: "fst (getUserImages list_env_example ''u1'') = Inr res"
    and l: "length res = length ?rows"
    and f: "\<forall>i < length ?rows.
              image_id (res ! i) = image_id (?rows ! i) \<and>
              prompt (res ! i) = prompt (?rows ! i) \<and>
              storage_path (res ! i) = storage_path (?rows ! i) \<and>
              created_at (res ! i) = created_at (?rows ! i) \<and>
              (error (createSignedUrl list_env_example i (storage_path (?rows ! i))) = None \<longrightarrow>
                 (\<forall>d. data (createSignedUrl list_env_example i (storage_path (?rows ! i))) = Some d \<longrightarrow>
                      url (res ! i) = signedUrl d)) \<and>
              ((\<exists>e. error (createSignedUrl list_env_example i (storage_path (?rows ! i))) = Some e) \<or>
               data (createSignedUrl list_env_example i (storage_path (?rows ! i))) = None \<longrightarrow>
                 url (res ! i) = '''')"
    by blast
  from l obtain x where x: "res = [x]" by (cases res) auto
  from f x have "image_id x = ''7'' \<and> prompt x = ''cat'' \<and> storage_path x = ''p1'' \<and>
     created_at x = ''2024-01-01'' \<and> url x = ''''"
    by (simp add: list_env_example_def)
  then have "x = \<lparr>image_id = ''7'', prompt = ''cat'', storage_path = ''p1'',
           created_at = ''2024-01-01'', url = ''''\<rparr>" by (cases x) simp
  with r x show ?thesis by simp
qed

section \<open>Gateway service: failures of the remote call\<close>

text \<open>
  C9. \<open>sendMessageToChat\<close> never rejects. When the remote call rejects, it resolves to the
  fixed apology; when the remote call answers, it resolves to the answer. A caller sees a
  string either way: the result after a failure is the result after an answer that
  happens to be the apology.
\<close>

theorem sendMessageToChat_never_rejects:
  "sendMessageToChat (Inl e) = Inr ''Sorry, I encountered an error. Please try again.'' \<and>
   sendMessageToChat (Inr response_text) = Inr response_text \<and>
   sendMessageToChat (Inl e) =
     sendMessageToChat (Inr ''Sorry, I encountered an error. Please try again.'') \<and>
   (\<exists>t. sendMessageToChat sendMessage_outcome = Inr t)"
  by (simp add: sendMessageToChat_def split: sum.splits)

section \<open>Chat session: one exchange\<close>

text \<open>
  C1. The session is ready, the user has typed \<open>hi\<close>, and the remote call rejects.
  \<open>handleSend\<close> appends the user turn and a bot turn with the apology of
  \<open>sendMessageToChat\<close>, and then inserts both turns as rows of \<open>chat_history\<close>. The
  \<open>catch\<close> branch of \<open>handleSend\<close>, which appends its own fallback turn and inserts
  nothing, is not taken, because \<open>sendMessageToChat\<close> has already caught the rejection.
\<close>

theorem handleSend_gateway_failure_is_persisted:
  "handleSend ready_example (Inl (Error ''503'')) None =
     (\<lparr>chat = Some (createChat (Some '''') (Some [])),
       messages = [\<lparr>sender = ''bot'', text = greeting\<rparr>,
                   \<lparr>sender = ''user'', text = ''hi''\<rparr>,
                   \<lparr>sender = ''bot'',
                    text = ''Sorry, I encountered an error. Please try again.''\<rparr>],
       input = '''', isLoading = False, user = Some ''u1''\<rparr>,
      [ChatSendMessage (createChat (Some '''') (Some [])) ''hi'',
       DbInsert ''chat_history''
         [[(''user_id'', ''u1''), (''sender'', ''user''), (''text'', ''hi'')],
          [(''user_id'', ''u1''), (''sender'', ''bot''),
           (''text'', ''Sorry, I encountered an error. Please try again.'')]]])"
  by (simp add: handleSend_def handleSend_start_def handleSend_settle_def sendMessageToChat_def
        ready_example_def trim_def is_white_space_def)

section \<open>Chat session: clearing the history\<close>

text \<open>
  C3. With a user present, \<open>handleClearHistory\<close> first deletes the user's rows. When the
  delete fails, the state of the component is the one before the call (transcript and
  chat included), and the user is told with an alert; nothing else is issued. When the
  delete succeeds, the transcript is the single turn with the clearing message, and the
  chat is a new one created without seed history.
\<close>

theorem handleClearHistory_outcomes:
  assumes "user s = Some uid"
  shows "(delete_err = Some err \<longrightarrow>
            fst (handleClearHistory s delete_err fetch_outcome) = s \<and>
            snd (handleClearHistory s delete_err fetch_outcome) =
              [DbDelete ''chat_history'' [(''user_id'', uid)],
               Alert ''Could not clear history. Please try again.'']) \<and>
         (delete_err = None \<longrightarrow>
            messages (fst (handleClearHistory s delete_err fetch_outcome)) =
              [\<lparr>sender = ''bot'', text = ''History cleared. How can I help you?''\<rparr>] \<and>
            (\<exists>c. chat (fst (handleClearHistory s delete_err fetch_outcome)) = Some c \<and>
                 history c = None \<and>
                 c = createChat (Some (load_knowledge fetch_outcome)) None))"
  using assms by (simp add: handleClearHistory_def Let_def createChat_def)

theorem handleClearHistory_outcomes_witness:
  "fst (handleClearHistory ready_example (Some \<lparr>message = ''timeout''\<rparr>)
          (Inl (Error ''offline''))) = ready_example \<and>
   snd (handleClearHistory ready_example (Some \<lparr>message = ''timeout''\<rparr>)
          (Inl (Error ''offline''))) =
     [DbDelete ''chat_history'' [(''user_id'', ''u1'')],
      Alert ''Could not clear history. Please try again.''] \<and>
   messages (fst (handleClearHistory ready_example None (Inl (Error ''offline'')))) =
     [\<lparr>sender = ''bot'', text = ''History cleared. How can I help you?''\<rparr>] \<and>
   chat (fst (handleClearHistory ready_example None (Inl (Error ''offline'')))) =
     Some \<lparr>model = ''gemini-2.5-flash'', systemInstruction = None, history = None\<rparr>"
proof -
  have u: "user ready_example = Some ''u1''" by (simp add: ready_example_def)
  show ?thesis
    using handleClearHistory_outcomes
        [OF u, of "Some \<lparr>message = ''timeout''\<rparr>" "\<lparr>message = ''timeout''\<rparr>"
           "Inl (Error ''offline'')"]
      handleClearHistory_outcomes
        [OF u, of None "\<lparr>message = ''timeout''\<rparr>" "Inl (Error ''offline'')"]
    by (auto simp add: createChat_def load_knowledge_def)
qed

section \<open>Chat session: initialisation\<close>

lemma take_length_eq_iff: "take (length sub) xs = sub \<longleftrightarrow> (\<exists>post. xs = sub @ post)"
proof
  assume "take (length sub) xs = sub"
  then have "xs = sub @ drop (length sub) xs"
    by (metis append_take_drop_id)
  then show "\<exists>post. xs = sub @ post" ..
next
  assume "\<exists>post. xs = sub @ post"
  then show "take (length sub) xs = sub" by auto
qed

text \<open>\<open>str_includes\<close> is the substring test: some text before, the substring, some text after.\<close>

lemma str_includes_iff: "str_includes s sub \<longleftrightarrow> (\<exists>pre post. s = pre @ sub @ post)"
proof (induction s)
  case Nil
  show ?case by auto
next
  case (Cons c cs)
  show ?case
  proof
    assume "str_includes (c # cs) sub"
    then consider "take (length sub) (c # cs) = sub" | "str_includes cs sub" by auto
    then show "\<exists>pre post. c # cs = pre @ sub @ post"
    proof cases
      case 1
      then obtain post where "c # cs = sub @ post" using take_length_eq_iff by blast
      then have "c # cs = [] @ sub @ post" by simp
      then show ?thesis by blast
    next
      case 2
      then obtain pre post where "cs = pre @ sub @ post" using Cons.IH by blast
      then have "c # cs = (c # pre) @ sub @ post" by simp
      then show ?thesis by blast
    qed
  next
    assume "\<exists>pre post. c # cs = pre @ sub @ post"
    then obtain pre post where eq: "c # cs = pre @ sub @ post" by blast
    show "str_includes (c # cs) sub"
    proof (cases pre)
      case Nil
      with eq have "take (length sub) (c # cs) = sub" by (simp add: take_length_eq_iff)
      then show ?thesis by simp
    next
      case (Cons d pre')
      with eq have "cs = pre' @ sub @ post" by simp
      then have "str_includes cs sub" using Cons.IH by blast
      then show ?thesis by simp
    qed
  qed
qed

lemma notices_differ: "setup_incomplete_notice \<noteq> generic_error_notice m"
  by (simp add: setup_incomplete_notice_def generic_error_notice_def)

text \<open>
  C5, as stated, fails on the spelling of the second substring. The source tests for
  \<open>Could not find the table\<close> with a capital C, and the test is case-sensitive. An error
  message that contains \<open>could not find the table\<close> in lower case gets the generic-error
  notice; and the message \<open>Could not find the table\<close>, which contains neither
  \<open>does not exist\<close> nor the lower-case spelling, gets the setup-incomplete notice.
\<close>

theorem initChat_lowercase_counterexample:
  "str_includes ''could not find the table'' ''could not find the table'' \<and>
   messages (fst (initChat (mounted ''u1'') ''u1'' (Inl (Error ''offline''))
                    \<lparr>data = None, error = Some \<lparr>message = ''could not find the table''\<rparr>\<rparr>)) =
     [\<lparr>sender = ''bot'', text = generic_error_notice ''could not find the table''\<rparr>] \<and>
   generic_error_notice ''could not find the table'' \<noteq> setup_incomplete_notice \<and>
   \<not> str_includes ''Could not find the table'' ''could not find the table'' \<and>
   \<not> str_includes ''Could not find the table'' ''does not exist'' \<and>
   messages (fst (initChat (mounted ''u1'') ''u1'' (Inl (Error ''offline''))
                    \<lparr>data = None, error = Some \<lparr>message = ''Could not find the table''\<rparr>\<rparr>)) =
     [\<lparr>sender = ''bot'', text = setup_incomplete_notice\<rparr>]"
  by (simp add: initChat_def Let_def mounted_def generic_error_notice_def
        setup_incomplete_notice_def)

text \<open>
  C5, amended. When the history read fails, the transcript after \<open>initChat\<close> is exactly one
  bot turn: the setup-incomplete notice when the error message contains \<open>does not exist\<close>
  or \<open>Could not find the table\<close> (spelled so, case-sensitively), and otherwise the
  generic-error notice, which ends with the error message. The two notices are different
  texts, so the notice is the setup-incomplete one only in the first case. When the read
  succeeds with no rows, the transcript is exactly one greeting turn.
\<close>

theorem initChat_transcript:
  "(error res = Some err \<longrightarrow>
      messages (fst (initChat s uid fetch_outcome res)) =
        [\<lparr>sender = ''bot'',
          text = (if (\<exists>pre post. message err = pre @ ''does not exist'' @ post) \<or>
                     (\<exists>pre post. message err = pre @ ''Could not find the table'' @ post)
                  then setup_incomplete_notice
                  else generic_error_notice (message err))\<rparr>]) \<and>
   (error res = None \<and> (data res = None \<or> data res = Some []) \<longrightarrow>
      messages (fst (initChat s uid fetch_outcome res)) =
        [\<lparr>sender = ''bot'', text = greeting\<rparr>]) \<and>
   setup_incomplete_notice \<noteq> generic_error_notice m"
proof -
  have a: "messages (fst (initChat s uid fetch_outcome res)) =
        [\<lparr>sender = ''bot'',
          text = (if (\<exists>pre post. message err = pre @ ''does not exist'' @ post) \<or>
                     (\<exists>pre post. message err = pre @ ''Could not find the table'' @ post)
                  then setup_incomplete_notice
                  else generic_error_notice (message err))\<rparr>]"
    if "error res = Some err"
    using that unfolding str_includes_iff [symmetric]
    by (simp add: initChat_def Let_def)
  have b: "messages (fst (initChat s uid fetch_outcome res)) =
             [\<lparr>sender = ''bot'', text = greeting\<rparr>]"
    if "error res = None" "data res = None \<or> data res = Some []"
    using that by (auto simp add: initChat_def Let_def)
  show ?thesis using a b notices_differ by blast
qed

theorem initChat_transcript_witness:
  "messages (fst (initChat (mounted ''u1'') ''u1'' (Inl (Error ''offline''))
                    \<lparr>data = None, error = Some \<lparr>message = ''relation does not exist''\<rparr>\<rparr>)) =
     [\<lparr>sender = ''bot'', text = setup_incomplete_notice\<rparr>] \<and>
   messages (fst (initChat (mounted ''u1'') ''u1'' (Inl (Error ''offline''))
                    \<lparr>data = None, error = Some \<lparr>message = ''Could not find the table''\<rparr>\<rparr>)) =
     [\<lparr>sender = ''bot'', text = setup_incomplete_notice\<rparr>] \<and>
   messages (fst (initChat (mounted ''u1'') ''u1'' (Inl (Error ''offline''))
                    \<lparr>data = None, error = Some \<lparr>message = ''timeout''\<rparr>\<rparr>)) =
     [\<lparr>sender = ''bot'', text = generic_error_notice ''timeout''\<rparr>] \<and>
   messages (fst (initChat (mounted ''u1'') ''u1'' (Inl (Error ''offline''))
                    \<lparr>data = Some [], error = None\<rparr>)) =
     [\<lparr>sender = ''bot'', text = greeting\<rparr>]"
proof -
  have c1: "\<exists>pre post. ''relation does not exist'' = pre @ ''does not exist'' @ post"
    unfolding str_includes_iff [symmetric] by simp
  have c2: "\<exists>pre post. ''Could not find the table'' = pre @ ''Could not find the table'' @ post"
    unfolding str_includes_iff [symmetric] by simp
  have c3: "\<not> ((\<exists>pre post. ''timeout'' = pre @ ''does not exist'' @ post) \<or>
                (\<exists>pre post. ''timeout'' = pre @ ''Could not find the table'' @ post))"
    unfolding str_includes_iff [symmetric] by simp
  show ?thesis
    using initChat_transcript
        [of "\<lparr>data = None, error = Some \<lparr>message = ''relation does not exist''\<rparr>\<rparr>"
            "\<lparr>message = ''relation does not exist''\<rparr>" "mounted ''u1''" "''u1''"
            "Inl (Error ''offline'')" "''''"]
      initChat_transcript
        [of "\<lparr>data = None, error = Some \<lparr>message = ''Could not find the table''\<rparr>\<rparr>"
            "\<lparr>message = ''Could not find the table''\<rparr>" "mounted ''u1''" "''u1''"
            "Inl (Error ''offline'')" "''''"]
      initChat_transcript
        [of "\<lparr>data = None, error = Some \<lparr>message = ''timeout''\<rparr>\<rparr>"
            "\<lparr>message = ''timeout''\<rparr>" "mounted ''u1''" "''u1''"
            "Inl (Error ''offline'')" "''''"]
      initChat_transcript
        [of "\<lparr>data = Some [], error = None\<rparr>"
            "\<lparr>message = ''timeout''\<rparr>" "mounted ''u1''" "''u1''"
            "Inl (Error ''offline'')" "''''"]
      c1 c2 c3
    by simp
qed

section \<open>Chat session: sends in sequence\<close>

lemma handleSend_accepted:
  assumes "trim typed_text \<noteq> []" "chat s \<noteq> None" "user s \<noteq> None" "\<not> isLoading s"
  shows "fst (handleSend (s\<lparr>input := typed_text\<rparr>) (Inr reply) insert_err) =
           s\<lparr>messages := messages s @
                 [\<lparr>sender = ''user'', text = typed_text\<rparr>, \<lparr>sender = ''bot'', text = reply\<rparr>],
             input := '''', isLoading := False\<rparr>"
  using assms
  by (auto simp add: handleSend_def handleSend_start_def handleSend_settle_def
        sendMessageToChat_def)

lemma run_sends_messages:
  assumes "chat s \<noteq> None" "user s \<noteq> None" "\<not> isLoading s"
    and "\<forall>x \<in> set xs. trim (fst x) \<noteq> []"
  shows "messages (run_sends s (map answered xs)) = messages s @ concat (map exchange_turns xs)"
  using assms
proof (induction xs arbitrary: s)
  case Nil
  show ?case by simp
next
  case (Cons x xs)
  obtain typed_text reply insert_err where x: "x = (typed_text, reply, insert_err)"
    by (cases x) auto
  let ?s' = "s\<lparr>messages := messages s @ exchange_turns x, input := '''', isLoading := False\<rparr>"
  from Cons.prems x have step:
    "fst (handleSend (s\<lparr>input := typed_text\<rparr>) (Inr reply) insert_err) = ?s'"
    by (simp add: handleSend_accepted exchange_turns_def)
  have "messages (run_sends ?s' (map answered xs)) = messages ?s' @ concat (map exchange_turns xs)"
    using Cons.prems by (intro Cons.IH) simp_all
  moreover have "answered x = (typed_text, Inr reply, insert_err)"
    using x by (simp add: answered_def)
  ultimately show ?case using step by simp
qed

lemma concat_turns_nth:
  "i < length xs \<Longrightarrow>
     sender (concat (map exchange_turns xs) ! (2 * i)) = ''user'' \<and>
     sender (concat (map exchange_turns xs) ! (2 * i + 1)) = ''bot''"
proof (induction xs arbitrary: i)
  case Nil
  then show ?case by simp
next
  case (Cons x xs)
  show ?case
  proof (cases i)
    case 0
    then show ?thesis by (simp add: exchange_turns_def split: prod.splits)
  next
    case (Suc j)
    with Cons.prems have "j < length xs" by simp
    from Cons.IH [OF this] Suc show ?thesis
      by (simp add: exchange_turns_def split: prod.splits)
  qed
qed

lemma length_concat_turns: "length (concat (map exchange_turns xs)) = 2 * length xs"
  by (induction xs) (auto simp: exchange_turns_def split: prod.splits)

text \<open>
  C7. The session has a chat and a user and is not loading; its transcript has \<open>K\<close> turns.
  \<open>N\<close> exchanges follow one after the other, each with an input that is not blank and
  each answered by the gateway. Then the transcript is the initial one followed by, for
  each exchange in order, the user turn with the typed text and the bot turn with the
  reply: it has \<open>2N + K\<close> turns, and from position \<open>K\<close> on the senders alternate, user
  first.
\<close>

theorem serial_sends_transcript:
  assumes "chat s \<noteq> None" and "user s \<noteq> None" and "\<not> isLoading s"
    and "\<forall>x \<in> set xs. trim (fst x) \<noteq> []"
  shows "messages (run_sends s (map answered xs)) =
           messages s @ concat (map exchange_turns xs) \<and>
         length (messages (run_sends s (map answered xs))) =
           2 * length xs + length (messages s) \<and>
         (\<forall>i < length xs.
            sender (messages (run_sends s (map answered xs)) !
                      (length (messages s) + 2 * i)) = ''user'' \<and>
            sender (messages (run_sends s (map answered xs)) !
                      (length (messages s) + 2 * i + 1)) = ''bot'')"
proof -
  have m: "messages (run_sends s (map answered xs)) = messages s @ concat (map exchange_turns xs)"
    using assms by (rule run_sends_messages)
  have l: "length (messages (run_sends s (map answered xs))) = 2 * length xs + length (messages s)"
    by (simp add: m length_concat_turns)
  have a: "sender (messages (run_sends s (map answered xs)) !
                      (length (messages s) + 2 * i)) = ''user'' \<and>
           sender (messages (run_sends s (map answered xs)) !
                      (length (messages s) + 2 * i + 1)) = ''bot''"
    if "i < length xs" for i
    using concat_turns_nth [OF that] by (simp add: m nth_append add.assoc)
  from m l a show ?thesis by blast
qed

theorem serial_sends_transcript_witness:
  "messages (run_sends ready_example
               [(''hi'', Inr ''hello'', None),
                (''bye'', Inr ''see you'', Some \<lparr>message = ''denied''\<rparr>)]) =
     [\<lparr>sender = ''bot'', text = greeting\<rparr>,
      \<lparr>sender = ''user'', text = ''hi''\<rparr>, \<lparr>sender = ''bot'', text = ''hello''\<rparr>,
      \<lparr>sender = ''user'', text = ''bye''\<rparr>, \<lparr>sender = ''bot'', text = ''see you''\<rparr>]"
proof -
  have c: "chat ready_example \<noteq> None" and u: "user ready_example \<noteq> None"
    and l: "\<not> isLoading ready_example"
    by (simp_all add: ready_example_def)
  have t: "\<forall>x \<in> set [(''hi'', ''hello'', None),
                        (''bye'', ''see you'', Some \<lparr>message = ''denied''\<rparr>)].
             trim (fst x) \<noteq> []"
    by (simp add: trim_def is_white_space_def)
  show ?thesis
    using serial_sends_transcript [OF c u l t]
    by (simp add: answered_def exchange_turns_def ready_example_def)
qed

section \<open>Chat session: sends while an exchange is outstanding\<close>

text \<open>
  The guard of \<open>handleSend\<close>: while \<open>isLoading\<close> is set, or with an input that is empty or
  all white space, the call returns before any update; nothing is started, the state of
  the component is the one before the call, and no call is issued.
\<close>

lemma handleSend_guard:
  "isLoading s \<or> trim (input s) = [] \<Longrightarrow>
     handleSend_start s = None \<and> handleSend s sendMessage_outcome insert_err = (s, [])"
  by (auto simp: handleSend_def handleSend_start_def)

lemma reachable_reloaded_example: "reachable reloaded_example"
proof -
  let ?k = "Inr \<lparr>ok = True, body = Inr ''kb''\<rparr> :: js_error + fetch_response"
  let ?p1 = "\<lparr>pending_chat = first_chat, currentInput = ''hi'', pending_user = ''u1''\<rparr>"
  let ?ready = "\<lparr>chat = Some first_chat, messages = [\<lparr>sender = ''bot'', text = greeting\<rparr>],
                  input = '''', isLoading = False, user = Some ''u1''\<rparr>"
  let ?sending = "\<lparr>chat = Some first_chat,
                    messages = [\<lparr>sender = ''bot'', text = greeting\<rparr>,
                                \<lparr>sender = ''user'', text = ''hi''\<rparr>],
                    input = '''', isLoading = True, user = Some ''u1''\<rparr>"
  have "reachable \<lparr>ui = initChat_begin (mounted ''u1''), outstanding = [],
                    initializing = [''u1'']\<rparr>"
    by (rule reachable.mounted_with_user)
  from reachable.initialized [OF this, of "''u1''" "Inl (Error ''offline'')"
      "\<lparr>data = None, error = None\<rparr>"]
  have "reachable \<lparr>ui = ?ready, outstanding = [], initializing = []\<rparr>"
    by (simp add: initChat_def initChat_begin_def mounted_def Let_def load_knowledge_def
          createChat_def first_chat_def)
  from reachable.typed [OF this, of "''hi''"]
  have r: "reachable \<lparr>ui = ?ready\<lparr>input := ''hi''\<rparr>, outstanding = [], initializing = []\<rparr>"
    by simp
  have "handleSend_start (ui \<lparr>ui = ?ready\<lparr>input := ''hi''\<rparr>, outstanding = [],
                               initializing = []\<rparr>) = Some (?sending, ?p1)"
    by (simp add: handleSend_start_def trim_def is_white_space_def)
  from reachable.sent [OF r this]
  have "reachable \<lparr>ui = ?sending, outstanding = [?p1], initializing = []\<rparr>"
    by simp
  from reachable.user_changed [OF this, of "''u1''"]
  have "reachable \<lparr>ui = ?sending, outstanding = [?p1], initializing = [''u1'']\<rparr>"
    by (simp add: initChat_begin_def)
  from reachable.initialized [OF this, of "''u1''" ?k "\<lparr>data = Some [], error = None\<rparr>"]
  show ?thesis
    by (simp add: initChat_def Let_def load_knowledge_def createChat_def second_chat_def
          reloaded_example_def)
qed

lemma reachable_racing_example: "reachable racing_example"
proof -
  let ?p1 = "\<lparr>pending_chat = first_chat, currentInput = ''hi'', pending_user = ''u1''\<rparr>"
  let ?p2 = "\<lparr>pending_chat = second_chat, currentInput = ''again'', pending_user = ''u1''\<rparr>"
  let ?p3 = "\<lparr>pending_chat = second_chat, currentInput = ''third'', pending_user = ''u1''\<rparr>"
  let ?a = "\<lparr>chat = Some second_chat,
              messages = [\<lparr>sender = ''bot'', text = greeting\<rparr>,
                          \<lparr>sender = ''user'', text = ''again''\<rparr>],
              input = '''', isLoading = True, user = Some ''u1''\<rparr>"
  let ?b = "\<lparr>chat = Some second_chat,
              messages = [\<lparr>sender = ''bot'', text = greeting\<rparr>,
                          \<lparr>sender = ''user'', text = ''again''\<rparr>,
                          \<lparr>sender = ''bot'', text = ''hello''\<rparr>],
              input = '''', isLoading = False, user = Some ''u1''\<rparr>"
  from reachable.typed [OF reachable_reloaded_example, of "''again''"]
  have r1: "reachable (reloaded_example\<lparr>ui := (ui reloaded_example)\<lparr>input := ''again''\<rparr>\<rparr>)" .
  have "handleSend_start (ui (reloaded_example\<lparr>ui := (ui reloaded_example)\<lparr>input := ''again''\<rparr>\<rparr>)) =
          Some (?a, ?p2)"
    by (simp add: handleSend_start_def trim_def is_white_space_def reloaded_example_def)
  from reachable.sent [OF r1 this]
  have r2: "reachable \<lparr>ui = ?a, outstanding = [?p1, ?p2], initializing = []\<rparr>"
    by (simp add: reloaded_example_def)
  have "?p1 \<in> set (outstanding \<lparr>ui = ?a, outstanding = [?p1, ?p2], initializing = []\<rparr>)"
    by simp
  from reachable.settled [OF r2 this, of "Inr ''hello''" None]
  have "reachable \<lparr>ui = ?b, outstanding = [?p2], initializing = []\<rparr>"
    by (simp add: handleSend_settle_def sendMessageToChat_def)
  from reachable.typed [OF this, of "''third''"]
  have r3: "reachable \<lparr>ui = ?b\<lparr>input := ''third''\<rparr>, outstanding = [?p2], initializing = []\<rparr>"
    by simp
  have "handleSend_start (ui \<lparr>ui = ?b\<lparr>input := ''third''\<rparr>, outstanding = [?p2],
                               initializing = []\<rparr>) = Some (ui racing_example, ?p3)"
    by (simp add: handleSend_start_def trim_def is_white_space_def racing_example_def)
  from reachable.sent [OF r3 this] show ?thesis
    by (simp add: racing_example_def)
qed

text \<open>
  C8. The guard refuses a send only through \<open>isLoading\<close>, and a run of \<open>initChat\<close> ends by
  clearing \<open>isLoading\<close> whatever else is going on. In the session described above, the
  second run of \<open>initChat\<close> finishes while the exchange for \<open>hi\<close> is outstanding; the state
  \<open>reloaded_example\<close> is reached, with one exchange outstanding and \<open>isLoading\<close> false. A
  send of \<open>again\<close> in this state is accepted: it appends the user turn to the transcript
  and starts a second exchange. After the first exchange has settled, a send of \<open>third\<close>
  is accepted as well, and the state \<open>racing_example\<close> is reached, in which two exchanges
  are outstanding, both against the chat that the component holds.
\<close>

theorem handleSend_accepted_while_outstanding:
  "reachable reloaded_example \<and>
   outstanding reloaded_example =
     [\<lparr>pending_chat = first_chat, currentInput = ''hi'', pending_user = ''u1''\<rparr>] \<and>
   isLoading (ui reloaded_example) = False \<and>
   handleSend_start ((ui reloaded_example)\<lparr>input := ''again''\<rparr>) =
     Some (\<lparr>chat = Some second_chat,
            messages = [\<lparr>sender = ''bot'', text = greeting\<rparr>,
                        \<lparr>sender = ''user'', text = ''again''\<rparr>],
            input = '''', isLoading = True, user = Some ''u1''\<rparr>,
           \<lparr>pending_chat = second_chat, currentInput = ''again'', pending_user = ''u1''\<rparr>) \<and>
   reachable racing_example \<and>
   length (outstanding racing_example) = 2 \<and>
   map pending_chat (outstanding racing_example) = [second_chat, second_chat] \<and>
   chat (ui racing_example) = Some second_chat"
  using reachable_reloaded_example reachable_racing_example
  by (simp add: reloaded_example_def racing_example_def handleSend_start_def trim_def
        is_white_space_def)

end
